theory Spec2Isabelle
  imports Complex_Main "HOL-Library.Product_Lexorder" "HOL-Library.Sublist"
begin

section \<open>Values\<close>

text \<open>
  Scores are Python floats.  The search only compares them and the heuristics only
  convert small integers, so a float is modelled as a real number or one of the two
  infinities \<^verbatim>\<open>float('-inf')\<close> and \<^verbatim>\<open>float('inf')\<close>; NaN is not modelled.
\<close>

datatype pyfloat = NegInf | Fin real | PosInf

instantiation pyfloat :: linorder
begin

fun less_eq_pyfloat :: "pyfloat \<Rightarrow> pyfloat \<Rightarrow> bool" where
  "less_eq_pyfloat NegInf y = True"
| "less_eq_pyfloat (Fin x) NegInf = False"
| "less_eq_pyfloat (Fin x) (Fin y) = (x \<le> y)"
| "less_eq_pyfloat (Fin x) PosInf = True"
| "less_eq_pyfloat PosInf PosInf = True"
| "less_eq_pyfloat PosInf y = False"

definition less_pyfloat :: "pyfloat \<Rightarrow> pyfloat \<Rightarrow> bool" where
  "less_pyfloat x y = (x \<le> y \<and> \<not> y \<le> x)"

instance
proof
  fix x y z :: pyfloat
  show "(x < y) = (x \<le> y \<and> \<not> y \<le> x)"
    by (simp add: less_pyfloat_def)
  show "x \<le> x"
    by (cases x) simp_all
  show "x \<le> y \<Longrightarrow> y \<le> z \<Longrightarrow> x \<le> z"
    by (cases x; cases y; cases z) simp_all
  show "x \<le> y \<Longrightarrow> y \<le> x \<Longrightarrow> x = y"
    by (cases x; cases y) simp_all
  show "x \<le> y \<or> y \<le> x"
    by (cases x; cases y) auto
qed

end

text \<open>A move is a board coordinate \<^verbatim>\<open>(row, col)\<close>; Python compares tuples
  lexicographically, which is the order of \<open>Product_Lexorder\<close>.\<close>

type_synonym move = "int \<times> int"

datatype error = Timeout | UnboundLocalError | NameError

section \<open>The consumed board interface\<close>

text \<open>
  \<^verbatim>\<open>isolation.Board\<close> is not part of the two source files.  The methods the code
  calls on a \<^verbatim>\<open>game\<close> object are taken as a parameter: a record of functions over
  an arbitrary state type \<open>'g\<close> and player identity \<open>'p\<close>.  The optional argument of
  \<^verbatim>\<open>get_legal_moves(player=None)\<close> is an \<open>option\<close>.
\<close>

record ('g, 'p) Board =
  get_legal_moves :: "'g \<Rightarrow> 'p option \<Rightarrow> move list"
  forecast_move :: "'g \<Rightarrow> move \<Rightarrow> 'g"
  get_player_location :: "'g \<Rightarrow> 'p \<Rightarrow> move"
  get_opponent :: "'g \<Rightarrow> 'p \<Rightarrow> 'p"
  is_loser :: "'g \<Rightarrow> 'p \<Rightarrow> bool"
  is_winner :: "'g \<Rightarrow> 'p \<Rightarrow> bool"
  move_is_legal :: "'g \<Rightarrow> move \<Rightarrow> bool"
  get_blank_spaces :: "'g \<Rightarrow> move list"
  width :: "'g \<Rightarrow> int"
  height :: "'g \<Rightarrow> int"

section \<open>game_agent.py\<close>

text \<open>\<^verbatim>\<open>custom_score\<close>: \<^verbatim>\<open>float(len(game.get_legal_moves()))\<close>; the player argument is
  not used.\<close>

definition custom_score :: "('g, 'p) Board \<Rightarrow> 'g \<Rightarrow> 'p \<Rightarrow> pyfloat" where
  "custom_score B game player = Fin (real (length (get_legal_moves B game None)))"

text \<open>
  \<^verbatim>\<open>CustomPlayer\<close>.  \<open>self\<close> is the identity under which the board knows the
  player object.  \<open>score\<close> is the configured evaluation function with the board
  interface already supplied.  \<open>time_left\<close> is the clock accessor: a call of
  \<^verbatim>\<open>self.time_left()\<close> returns a reading that depends on when it is made, so the
  accessor is a function of the number of readings taken before, and every search
  function threads that counter.  The model covers a player whose accessor has been
  set (the constructor's \<^verbatim>\<open>None\<close> is replaced by \<^verbatim>\<open>get_move\<close> before any search).
\<close>

record ('g, 'p) CustomPlayer =
  self :: 'p
  search_depth :: int
  score :: "'g \<Rightarrow> 'p \<Rightarrow> pyfloat"
  iterative :: bool
  "method" :: string
  time_left :: "nat \<Rightarrow> real"
  TIMER_THRESHOLD :: real

type_synonym result = "pyfloat \<times> move"

text \<open>
  \<^verbatim>\<open>minimax\<close> and its \<^verbatim>\<open>for lm in legal_moves\<close> loop.  The loop function carries the
  remaining moves, \<^verbatim>\<open>best_score\<close> and the clock counter.  \<open>Inl\<close> is a raised
  exception.
\<close>

function minimax ::
    "('g, 'p) CustomPlayer \<Rightarrow> ('g, 'p) Board \<Rightarrow> 'g \<Rightarrow> int \<Rightarrow> bool \<Rightarrow> nat \<Rightarrow> error + (result \<times> nat)"
  and minimax_loop ::
    "('g, 'p) CustomPlayer \<Rightarrow> ('g, 'p) Board \<Rightarrow> 'g \<Rightarrow> int \<Rightarrow> bool \<Rightarrow> move list \<Rightarrow> result \<Rightarrow> nat
      \<Rightarrow> error + (result \<times> nat)"
where
  "minimax P B game depth maximizing_player n =
     (if time_left P n < TIMER_THRESHOLD P then Inl Timeout
      else
        let legal_moves = get_legal_moves B game None;
            temp_score = (if maximizing_player then NegInf else PosInf);
            best_score = (temp_score, (0, 0))
        in if legal_moves = [] then Inr ((Fin 0, (-1, -1)), Suc n)
           else if depth \<le> 0
             then Inr ((score P game (self P), get_player_location B game (self P)), Suc n)
           else minimax_loop P B game depth maximizing_player legal_moves best_score (Suc n))"
| "minimax_loop P B game depth maximizing_player [] best_score n = Inr (best_score, n)"
| "minimax_loop P B game depth maximizing_player (lm # rest) best_score n =
     (case minimax P B (forecast_move B game lm) (depth - 1) maximizing_player n of
        Inl e \<Rightarrow> Inl e
      | Inr (sc, n') \<Rightarrow>
          let best_score1 = (if maximizing_player then max best_score sc
                             else min best_score sc);
              best_score2 = (if best_score1 = sc then (fst best_score1, lm)
                             else best_score1)
          in minimax_loop P B game depth maximizing_player rest best_score2 n')"
  by pat_completeness auto
termination
  by (relation "inv_image (less_than <*lex*> less_than)
        (\<lambda>x. case x of
            Inl (P, B, game, depth, mp, n) \<Rightarrow> (2 * nat depth, 0)
          | Inr (P, B, game, depth, mp, ms, best, n) \<Rightarrow> (2 * nat (max depth 1) - 1, length ms))")
     auto

text \<open>
  \<^verbatim>\<open>alphabeta_max\<close> and \<^verbatim>\<open>alphabeta_min\<close>.  Neither reads the clock.  The local
  \<^verbatim>\<open>best_move\<close> is unbound until the first assignment, so it is an \<open>option\<close>, and
  \<^verbatim>\<open>return (best_score, best_move)\<close> with \<^verbatim>\<open>best_move\<close> unbound raises
  \<^verbatim>\<open>UnboundLocalError\<close>.  The subscript \<^verbatim>\<open>[0]\<close> of the recursive call is \<open>fst\<close>.
\<close>

definition return_best :: "pyfloat \<Rightarrow> move option \<Rightarrow> error + result" where
  "return_best best_score best_move =
     (case best_move of None \<Rightarrow> Inl UnboundLocalError | Some m \<Rightarrow> Inr (best_score, m))"

function alphabeta_max ::
    "('g, 'p) CustomPlayer \<Rightarrow> ('g, 'p) Board \<Rightarrow> 'g \<Rightarrow> int \<Rightarrow> pyfloat \<Rightarrow> pyfloat \<Rightarrow> error + result"
  and alphabeta_max_loop ::
    "('g, 'p) CustomPlayer \<Rightarrow> ('g, 'p) Board \<Rightarrow> 'g \<Rightarrow> int \<Rightarrow> move list \<Rightarrow> pyfloat \<Rightarrow> pyfloat
      \<Rightarrow> pyfloat \<Rightarrow> move option \<Rightarrow> error + result"
  and alphabeta_min ::
    "('g, 'p) CustomPlayer \<Rightarrow> ('g, 'p) Board \<Rightarrow> 'g \<Rightarrow> int \<Rightarrow> pyfloat \<Rightarrow> pyfloat \<Rightarrow> error + result"
  and alphabeta_min_loop ::
    "('g, 'p) CustomPlayer \<Rightarrow> ('g, 'p) Board \<Rightarrow> 'g \<Rightarrow> int \<Rightarrow> move list \<Rightarrow> pyfloat \<Rightarrow> pyfloat
      \<Rightarrow> pyfloat \<Rightarrow> move option \<Rightarrow> error + result"
where
  "alphabeta_max P B game depth alpha beta =
     (if depth \<le> 0
      then Inr (score P game (self P), get_player_location B game (self P))
      else alphabeta_max_loop P B game depth (get_legal_moves B game None) alpha beta
             NegInf None)"
| "alphabeta_max_loop P B game depth [] alpha beta best_score best_move =
     return_best best_score best_move"
| "alphabeta_max_loop P B game depth (lm # rest) alpha beta best_score best_move =
     (case alphabeta_min P B (forecast_move B game lm) (depth - 1) alpha beta of
        Inl e \<Rightarrow> Inl e
      | Inr r \<Rightarrow>
          let sc = fst r;
              best_score1 = (if sc > best_score then sc else best_score);
              best_move1 = (if sc > best_score then Some lm else best_move)
          in if best_score1 \<ge> beta then return_best best_score1 best_move1
             else alphabeta_max_loop P B game depth rest (max alpha best_score1) beta
                    best_score1 best_move1)"
| "alphabeta_min P B game depth alpha beta =
     (if depth \<le> 0
      then Inr (score P game (self P), get_player_location B game (self P))
      else alphabeta_min_loop P B game depth (get_legal_moves B game None) alpha beta
             PosInf None)"
| "alphabeta_min_loop P B game depth [] alpha beta best_score best_move =
     return_best best_score best_move"
| "alphabeta_min_loop P B game depth (lm # rest) alpha beta best_score best_move =
     (case alphabeta_max P B (forecast_move B game lm) (depth - 1) alpha beta of
        Inl e \<Rightarrow> Inl e
      | Inr r \<Rightarrow>
          let sc = fst r;
              best_score1 = (if sc < best_score then sc else best_score);
              best_move1 = (if sc < best_score then Some lm else best_move)
          in if best_score1 \<le> alpha then return_best best_score1 best_move1
             else alphabeta_min_loop P B game depth rest alpha (min beta best_score1)
                    best_score1 best_move1)"
  by pat_completeness auto
termination
  by (relation "inv_image (less_than <*lex*> less_than)
        (\<lambda>x. case x of
            Inl (Inl (P, B, game, depth, a, b)) \<Rightarrow> (2 * nat depth, 0)
          | Inl (Inr (P, B, game, depth, ms, a, b, bs, bm)) \<Rightarrow>
              (2 * nat (max depth 1) - 1, length ms)
          | Inr (Inl (P, B, game, depth, a, b)) \<Rightarrow> (2 * nat depth, 0)
          | Inr (Inr (P, B, game, depth, ms, a, b, bs, bm)) \<Rightarrow>
              (2 * nat (max depth 1) - 1, length ms))")
     auto

text \<open>
  The recursive scores a node's loop obtains, for the statement of the tie-break: the
  pairs of a move and the score \<^verbatim>\<open>alphabeta_min(...)[0]\<close> (or \<^verbatim>\<open>alphabeta_max(...)[0]\<close>)
  returned for it, in the order of the loop, up to a cutoff or an exception.  The
  window and \<^verbatim>\<open>best_score\<close> evolve as in \<^verbatim>\<open>alphabeta_max_loop\<close> and
  \<^verbatim>\<open>alphabeta_min_loop\<close>.
\<close>

fun explored_max ::
    "('g, 'p) CustomPlayer \<Rightarrow> ('g, 'p) Board \<Rightarrow> 'g \<Rightarrow> int \<Rightarrow> move list \<Rightarrow> pyfloat \<Rightarrow> pyfloat
      \<Rightarrow> pyfloat \<Rightarrow> (move \<times> pyfloat) list" where
  "explored_max P B game depth [] alpha beta best_score = []"
| "explored_max P B game depth (lm # rest) alpha beta best_score =
     (case alphabeta_min P B (forecast_move B game lm) (depth - 1) alpha beta of
        Inl e \<Rightarrow> []
      | Inr r \<Rightarrow>
          let sc = fst r;
              best_score1 = (if sc > best_score then sc else best_score)
          in (lm, sc) #
             (if best_score1 \<ge> beta then []
              else explored_max P B game depth rest (max alpha best_score1) beta best_score1))"

fun explored_min ::
    "('g, 'p) CustomPlayer \<Rightarrow> ('g, 'p) Board \<Rightarrow> 'g \<Rightarrow> int \<Rightarrow> move list \<Rightarrow> pyfloat \<Rightarrow> pyfloat
      \<Rightarrow> pyfloat \<Rightarrow> (move \<times> pyfloat) list" where
  "explored_min P B game depth [] alpha beta best_score = []"
| "explored_min P B game depth (lm # rest) alpha beta best_score =
     (case alphabeta_max P B (forecast_move B game lm) (depth - 1) alpha beta of
        Inl e \<Rightarrow> []
      | Inr r \<Rightarrow>
          let sc = fst r;
              best_score1 = (if sc < best_score then sc else best_score)
          in (lm, sc) #
             (if best_score1 \<le> alpha then []
              else explored_min P B game depth rest alpha (min beta best_score1) best_score1))"

text \<open>\<^verbatim>\<open>alphabeta\<close>: one clock reading, then the maximizing or the minimizing
  version.\<close>

definition alphabeta ::
    "('g, 'p) CustomPlayer \<Rightarrow> ('g, 'p) Board \<Rightarrow> 'g \<Rightarrow> int \<Rightarrow> pyfloat \<Rightarrow> pyfloat \<Rightarrow> bool \<Rightarrow> nat
      \<Rightarrow> error + (result \<times> nat)" where
  "alphabeta P B game depth alpha beta maximizing_player n =
     (if time_left P n < TIMER_THRESHOLD P then Inl Timeout
      else
        let alphabeta_version = (if maximizing_player then alphabeta_max else alphabeta_min)
        in case alphabeta_version P B game depth alpha beta of
             Inl e \<Rightarrow> Inl e
           | Inr r \<Rightarrow> Inr (r, Suc n))"

text \<open>
  \<^verbatim>\<open>get_move\<close>.  The \<^verbatim>\<open>while True\<close> loop of the iterative mode ends only by an
  exception, so it is a partial function: \<open>None\<close> is a loop that never ends.
  \<^verbatim>\<open>except Timeout\<close> catches \<^verbatim>\<open>Timeout\<close> only; any other exception leaves
  \<^verbatim>\<open>get_move\<close>.  Both modes call \<^verbatim>\<open>self.minimax\<close>; \<^verbatim>\<open>self.method\<close> and the
  \<^verbatim>\<open>legal_moves\<close> parameter are not read.
\<close>

partial_function (option) iterative_deepening ::
    "('g, 'p) CustomPlayer \<Rightarrow> ('g, 'p) Board \<Rightarrow> 'g \<Rightarrow> result \<Rightarrow> int \<Rightarrow> nat \<Rightarrow> (error + result) option"
where
  "iterative_deepening P B game best_move iterator n =
     (case minimax P B game iterator True n of
        Inl e \<Rightarrow> (if e = Timeout then Some (Inr best_move) else Some (Inl e))
      | Inr r \<Rightarrow> iterative_deepening P B game (max best_move (fst r)) (iterator + 1) (snd r))"

definition get_move ::
    "('g, 'p) CustomPlayer \<Rightarrow> ('g, 'p) Board \<Rightarrow> 'g \<Rightarrow> move list \<Rightarrow> (nat \<Rightarrow> real)
      \<Rightarrow> (error + move) option" where
  "get_move P0 B game legal_moves time_left' =
     (let P = P0\<lparr>time_left := time_left'\<rparr>;
          best_move = (NegInf, (-1, -1));
          outcome =
            (if iterative P then iterative_deepening P B game best_move 1 0
             else if get_legal_moves B game None \<noteq> []
               then (case minimax P B game (search_depth P) True 0 of
                       Inl e \<Rightarrow> (if e = Timeout then Some (Inr best_move) else Some (Inl e))
                     | Inr r \<Rightarrow> Some (Inr (fst r)))
               else Some (Inr best_move))
      in map_option (map_sum id snd) outcome)"

section \<open>heuristics.py\<close>

definition weighted_improved_score :: "('g, 'p) Board \<Rightarrow> 'g \<Rightarrow> 'p \<Rightarrow> pyfloat" where
  "weighted_improved_score B game player =
     (if is_loser B game player then NegInf
      else if is_winner B game player then PosInf
      else
        let own_moves = int (length (get_legal_moves B game (Some player)));
            opp_moves = int (length (get_legal_moves B game
                                       (Some (get_opponent B game player))))
        in Fin (real_of_int (10 * own_moves - 5 * opp_moves)))"

text \<open>
  The move tables of \<^verbatim>\<open>future_moves_weight\<close>.  A dict is an association list in the
  order of the literal; \<^verbatim>\<open>for k in d\<close> followed by \<^verbatim>\<open>d[k]\<close> visits its items in
  that order (no literal repeats a key).
\<close>

definition row_minus_one_column_cero :: "move list" where
  "row_minus_one_column_cero = [(-2, -2), (-2, 2)]"

definition row_plus_one_column_cero :: "move list" where
  "row_plus_one_column_cero = [(2, -2), (2, 2)]"

definition row_cero_column_minus_one :: "move list" where
  "row_cero_column_minus_one = [(-2, -2), (-2, 2)]"

definition row_cero_column_plus_one :: "move list" where
  "row_cero_column_plus_one = [(-2, 2), (2, 2)]"

definition row_cero_column_minus_two :: "(move \<times> move list) list" where
  "row_cero_column_minus_two =
     [((-1, 0), row_minus_one_column_cero), ((1, 0), row_plus_one_column_cero)]"

definition row_minus_one_column_plus_one :: "(move \<times> move list) list" where
  "row_minus_one_column_plus_one =
     [((0, -1), row_cero_column_minus_one), ((1, 0), row_plus_one_column_cero)]"

definition row_minus_two_column_cero :: "(move \<times> move list) list" where
  "row_minus_two_column_cero =
     [((0, -1), row_cero_column_minus_one), ((0, 1), row_cero_column_plus_one)]"

definition row_plus_one_column_minus_one :: "(move \<times> move list) list" where
  "row_plus_one_column_minus_one =
     [((-1, 0), row_minus_one_column_cero), ((0, 1), row_cero_column_plus_one)]"

definition row_minus_one_column_minus_one :: "(move \<times> move list) list" where
  "row_minus_one_column_minus_one =
     [((0, 1), row_cero_column_plus_one), ((1, 0), row_plus_one_column_cero)]"

definition row_plus_two_column_cero :: "(move \<times> move list) list" where
  "row_plus_two_column_cero =
     [((0, -1), row_cero_column_minus_one), ((0, 1), row_cero_column_plus_one)]"

definition row_plus_one_column_plus_one :: "(move \<times> move list) list" where
  "row_plus_one_column_plus_one =
     [((-1, 0), row_minus_one_column_cero), ((0, -1), row_cero_column_minus_one)]"

definition row_cero_column_plus_two :: "(move \<times> move list) list" where
  "row_cero_column_plus_two =
     [((-1, 0), row_minus_one_column_cero), ((1, 0), row_plus_one_column_cero)]"

definition directions :: "(move \<times> (move \<times> (move \<times> move list) list) list) list" where
  "directions =
     [((-2, -1), [((0, -2), row_cero_column_minus_two),
                  ((-1, 1), row_minus_one_column_plus_one)]),
      ((-1, -2), [((-2, 0), row_minus_two_column_cero),
                  ((1, -1), row_plus_one_column_minus_one)]),
      ((1, -2), [((-1, -1), row_minus_one_column_minus_one),
                 ((2, 0), row_plus_two_column_cero)]),
      ((2, -1), [((0, -2), row_cero_column_minus_two),
                 ((1, 1), row_plus_one_column_plus_one)]),
      ((2, 1), [((0, 2), row_cero_column_plus_two),
                ((1, -1), row_minus_one_column_minus_one)]),
      ((1, 2), [((-1, 1), row_minus_one_column_plus_one),
                ((2, 0), row_plus_two_column_cero)]),
      ((-1, 2), [((-2, 0), row_minus_two_column_cero),
                 ((1, 1), row_plus_one_column_plus_one)])]"

text \<open>The four nested \<^verbatim>\<open>for\<close> loops, innermost first; each carries the running
  \<^verbatim>\<open>score\<close>, a Python integer.\<close>

fun loop_four :: "('g, 'p) Board \<Rightarrow> 'g \<Rightarrow> int \<Rightarrow> int \<Rightarrow> move list \<Rightarrow> int \<Rightarrow> int" where
  "loop_four B game row col [] sc = sc"
| "loop_four B game row col (direction_four # rest) sc =
     (let (row_four, col_four) = direction_four
      in loop_four B game row col rest
           (if move_is_legal B game (row + row_four, col + col_four) then sc + 16 else sc))"

fun loop_three ::
    "('g, 'p) Board \<Rightarrow> 'g \<Rightarrow> int \<Rightarrow> int \<Rightarrow> (move \<times> move list) list \<Rightarrow> int \<Rightarrow> int" where
  "loop_three B game row col [] sc = sc"
| "loop_three B game row col ((direction_three, fours) # rest) sc =
     (let (row_three, col_three) = direction_three
      in loop_three B game row col rest
           (if move_is_legal B game (row + row_three, col + col_three)
            then loop_four B game row col fours (sc + 8) else sc))"

fun loop_two ::
    "('g, 'p) Board \<Rightarrow> 'g \<Rightarrow> int \<Rightarrow> int \<Rightarrow> (move \<times> (move \<times> move list) list) list \<Rightarrow> int \<Rightarrow> int"
where
  "loop_two B game row col [] sc = sc"
| "loop_two B game row col ((direction_two, threes) # rest) sc =
     (let (row_two, col_two) = direction_two
      in loop_two B game row col rest
           (if move_is_legal B game (row + row_two, col + col_two)
            then loop_three B game row col threes (sc + 4) else sc))"

fun loop_one ::
    "('g, 'p) Board \<Rightarrow> 'g \<Rightarrow> int \<Rightarrow> int
      \<Rightarrow> (move \<times> (move \<times> (move \<times> move list) list) list) list \<Rightarrow> int \<Rightarrow> int"
where
  "loop_one B game row col [] sc = sc"
| "loop_one B game row col ((direction_one, twos) # rest) sc =
     (let (row_one, col_one) = direction_one
      in loop_one B game row col rest
           (if move_is_legal B game (row + row_one, col + col_one)
            then loop_two B game row col twos (sc + 1) else sc))"

definition future_moves_weight :: "('g, 'p) Board \<Rightarrow> 'g \<Rightarrow> 'p \<Rightarrow> pyfloat" where
  "future_moves_weight B game player =
     (if is_loser B game player then NegInf
      else if is_winner B game player then PosInf
      else
        let (row, col) = get_player_location B game player
        in Fin (real_of_int (loop_one B game row col directions 0)))"

text \<open>\<^verbatim>\<open>mixed_heuristic\<close>: the name \<^verbatim>\<open>difference_player_biased\<close> of the else-branch is
  bound nowhere in the module, so evaluating it raises \<^verbatim>\<open>NameError\<close>.  The
  division \<^verbatim>\<open>/\<close> is the true division of Python 3.\<close>

definition mixed_heuristic :: "('g, 'p) Board \<Rightarrow> 'g \<Rightarrow> 'p \<Rightarrow> error + pyfloat" where
  "mixed_heuristic B game player =
     (if real_of_int (width B game * height B game) / 2
           > real (length (get_blank_spaces B game))
      then Inr (future_moves_weight B game player)
      else Inl NameError)"

section \<open>Concrete boards\<close>

text \<open>
  A finite game tree as a board for the search: a node holds the location reported
  for the searching player, the value the evaluation function gives the node, and the
  legal moves of the player to move with the positions they lead to.  The operations
  that only the heuristics call have fixed values here.
\<close>

datatype tree = Tree (t_loc: move) (t_val: pyfloat) (t_kids: "(move \<times> tree) list")

definition tree_board :: "(tree, nat) Board" where
  "tree_board =
     \<lparr>get_legal_moves = (\<lambda>g p. map fst (t_kids g)),
      forecast_move = (\<lambda>g m. case map_of (t_kids g) m of Some t \<Rightarrow> t | None \<Rightarrow> g),
      get_player_location = (\<lambda>g p. t_loc g),
      get_opponent = (\<lambda>g p. 3 - p),
      is_loser = (\<lambda>g p. False),
      is_winner = (\<lambda>g p. False),
      move_is_legal = (\<lambda>g m. m \<in> set (map fst (t_kids g))),
      get_blank_spaces = (\<lambda>g. []),
      width = (\<lambda>g. 0),
      height = (\<lambda>g. 0)\<rparr>"

definition tree_player :: "(tree, nat) CustomPlayer" where
  "tree_player =
     \<lparr>self = 1, search_depth = 2, score = (\<lambda>g p. t_val g), iterative = False,
      method = ''minimax'', time_left = (\<lambda>n. 100), TIMER_THRESHOLD = 10\<rparr>"

text \<open>A leaf position that still has one legal move, so that the search scores it with
  the evaluation function.\<close>

definition leaf :: "move \<Rightarrow> real \<Rightarrow> tree" where
  "leaf l v = Tree l (Fin v) [((0, 0), Tree (0, 0) (Fin 0) [])]"

text \<open>
  A single position given by its data, as a board for the heuristics: the player to
  move, each player's legal moves and location, the blank cells and the board size.
  A player has lost when it is to move and has no legal move, and has won when the
  opponent is in that situation.  The heuristics never apply a move, so
  \<open>forecast_move\<close> leaves the position as it is.
\<close>

record position =
  active :: nat
  moves_of :: "nat \<Rightarrow> move list"
  location_of :: "nat \<Rightarrow> move"
  blank :: "move list"
  cols :: int
  rows :: int

definition position_board :: "(position, nat) Board" where
  "position_board =
     \<lparr>get_legal_moves = (\<lambda>g p. moves_of g (case p of None \<Rightarrow> active g | Some q \<Rightarrow> q)),
      forecast_move = (\<lambda>g m. g),
      get_player_location = (\<lambda>g p. location_of g p),
      get_opponent = (\<lambda>g p. 3 - p),
      is_loser = (\<lambda>g p. p = active g \<and> moves_of g (active g) = []),
      is_winner = (\<lambda>g p. p \<noteq> active g \<and> moves_of g (active g) = []),
      move_is_legal = (\<lambda>g m. m \<in> set (blank g)),
      get_blank_spaces = (\<lambda>g. blank g),
      width = (\<lambda>g. cols g),
      height = (\<lambda>g. rows g)\<rparr>"

text \<open>Positions used as concrete inputs.  \<open>early\<close> is a 3 by 3 board with player 1 in
  the corner \<open>(0, 0)\<close> and to move and player 2 in the opposite corner; in \<open>decided\<close>
  only the cell \<open>(2, 1)\<close> is blank and player 2 is to move and has no legal move.\<close>

definition early :: position where
  "early =
     \<lparr>active = 1, moves_of = (\<lambda>p. if p = 1 then [(2, 1), (1, 2)] else [(0, 1), (1, 0)]),
      location_of = (\<lambda>p. if p = 1 then (0, 0) else (2, 2)),
      blank = [(0, 1), (0, 2), (1, 0), (1, 1), (1, 2), (2, 0), (2, 1)],
      cols = 3, rows = 3\<rparr>"

definition decided :: position where
  "decided =
     \<lparr>active = 2, moves_of = (\<lambda>p. if p = 1 then [(2, 1)] else []),
      location_of = (\<lambda>p. if p = 1 then (0, 0) else (2, 2)),
      blank = [(2, 1)], cols = 3, rows = 3\<rparr>"

text \<open>
  Game trees used as concrete inputs.  In \<open>two_ply_tree\<close> the root player has the moves
  \<open>(1, 2)\<close> and \<open>(2, 1)\<close>; the opponent's replies lead to positions valued 3 and 9
  after the first and 4 and 5 after the second.  In \<open>deepening_tree\<close> the positions
  after the root moves are valued 5 and 2 and the positions one ply deeper 1 and 3.
  In \<open>tied_tree\<close> both root moves lead to positions valued 5.  \<open>dead_end\<close> has no
  legal move.
\<close>

definition two_ply_tree :: tree where
  "two_ply_tree =
     Tree (0, 0) (Fin 0)
       [((1, 2), Tree (1, 2) (Fin 0) [((3, 3), leaf (1, 2) 3), ((3, 1), leaf (1, 2) 9)]),
        ((2, 1), Tree (2, 1) (Fin 0) [((4, 2), leaf (2, 1) 4), ((0, 2), leaf (2, 1) 5)])]"

definition deepening_tree :: tree where
  "deepening_tree =
     Tree (0, 0) (Fin 0)
       [((1, 2), Tree (1, 2) (Fin 5) [((3, 3), leaf (1, 2) 1)]),
        ((2, 1), Tree (2, 1) (Fin 2) [((4, 2), leaf (2, 1) 3)])]"

definition tied_tree :: tree where
  "tied_tree = Tree (0, 0) (Fin 0) [((1, 2), leaf (1, 2) 5), ((2, 1), leaf (2, 1) 5)]"

definition dead_end :: tree where
  "dead_end = Tree (0, 0) (Fin 7) []"

text \<open>In \<open>hopeless_tree\<close> both root moves lead to positions valued \<open>-\<infinity>\<close>.\<close>

definition hopeless_tree :: tree where
  "hopeless_tree =
     Tree (0, 0) (Fin 0)
       [((1, 2), Tree (1, 2) NegInf [((0, 0), Tree (0, 0) (Fin 0) [])]),
        ((2, 1), Tree (2, 1) NegInf [((0, 0), Tree (0, 0) (Fin 0) [])])]"

text \<open>A clock whose first \<open>k\<close> readings are 100 ms and all later ones 0 ms.\<close>

definition expiring :: "nat \<Rightarrow> nat \<Rightarrow> real" where
  "expiring k n = (if n < k then 100 else 0)"

declare iterative_deepening.simps [code]

section \<open>Properties\<close>

lemmas tree_eval = tree_player_def tree_board_def leaf_def max_def min_def
  less_pyfloat_def return_best_def alphabeta_def expiring_def

subsection \<open>Minimax\<close>

text \<open>
  C1 (the code departs from the claim).  At depth 2 on \<open>two_ply_tree\<close> the recursive
  calls of \<^verbatim>\<open>minimax\<close> receive the flag unchanged, so the opponent's layer is maximized
  too: the root result is \<open>(9, (1, 2))\<close>, the maximum over all four positions two
  plies down.  With the flag negated the two children evaluate to 3 and 4 (second and
  third conjunct), whose maximum is \<open>(4, (2, 1))\<close>.
\<close>

theorem minimax_passes_flag_unchanged:
  "minimax tree_player tree_board two_ply_tree 2 True 0 = Inr ((Fin 9, (1, 2)), 7)
   \<and> minimax tree_player tree_board (forecast_move tree_board two_ply_tree (1, 2)) 1 False 1
       = Inr ((Fin 3, (3, 3)), 4)
   \<and> minimax tree_player tree_board (forecast_move tree_board two_ply_tree (2, 1)) 1 False 4
       = Inr ((Fin 4, (4, 2)), 7)"
  by (simp add: two_ply_tree_def tree_eval)

subsection \<open>Alpha-beta against minimax\<close>

text \<open>
  C2 (the code departs from the claim).  On \<open>two_ply_tree\<close> at depth 2, with the full
  window and a clock that never expires, \<^verbatim>\<open>alphabeta\<close> returns score 4 and
  \<^verbatim>\<open>minimax\<close> returns score 9.
\<close>

theorem alphabeta_score_differs_from_minimax:
  "alphabeta tree_player tree_board two_ply_tree 2 NegInf PosInf True 0
     = Inr ((Fin 4, (2, 1)), 1)
   \<and> minimax tree_player tree_board two_ply_tree 2 True 0 = Inr ((Fin 9, (1, 2)), 7)"
  by (simp add: two_ply_tree_def tree_eval)

subsection \<open>The time guard\<close>

text \<open>\<^verbatim>\<open>minimax\<close> raises \<^verbatim>\<open>Timeout\<close> at any invocation whose reading is below the
  threshold; a completed \<^verbatim>\<open>alphabeta\<close> call has taken exactly one reading, whatever
  the depth.\<close>

lemma minimax_time_guard:
  "time_left P n < TIMER_THRESHOLD P \<Longrightarrow> minimax P B game depth maximizing_player n = Inl Timeout"
  by simp

lemma alphabeta_reads_clock_once:
  "alphabeta P B game depth alpha beta maximizing_player n = Inr (r, n') \<Longrightarrow> n' = Suc n"
  by (auto simp: alphabeta_def Let_def split: if_splits sum.splits)


text \<open>
  C3 (the code departs from the claim).  With a clock that is above the threshold at
  its first reading only, \<^verbatim>\<open>alphabeta\<close> at depth 2 on \<open>two_ply_tree\<close> completes the
  whole search and has taken one reading: the nested \<^verbatim>\<open>alphabeta_max\<close> and
  \<^verbatim>\<open>alphabeta_min\<close> calls do not check the time.  \<^verbatim>\<open>minimax\<close> on the same input
  raises \<^verbatim>\<open>Timeout\<close> at its first recursive call.
\<close>

theorem alphabeta_nested_calls_skip_time_check:
  "alphabeta (tree_player\<lparr>time_left := expiring 1\<rparr>) tree_board two_ply_tree 2
       NegInf PosInf True 0 = Inr ((Fin 4, (2, 1)), 1)
   \<and> minimax (tree_player\<lparr>time_left := expiring 1\<rparr>) tree_board two_ply_tree 2 True 0
       = Inl Timeout"
  by (simp add: two_ply_tree_def tree_eval)

subsection \<open>Iterative deepening\<close>

text \<open>
  C4 (the code departs from the claim).  On \<open>deepening_tree\<close> with a clock that
  expires at its eleventh reading, the iterations at depth 1 and 2 complete and the
  iteration at depth 3 is cancelled.  The depth 2 iteration, which starts at reading 3,
  returns \<open>(3, (2, 1))\<close>, yet \<^verbatim>\<open>get_move\<close> returns \<open>(1, 2)\<close>, the move of the depth 1
  result \<open>(5, (1, 2))\<close>: the loop keeps the maximum of all completed results.  With a
  clock that expires during the depth 1 iteration \<^verbatim>\<open>get_move\<close> returns \<open>(-1, -1)\<close>
  (last conjunct).
\<close>

theorem get_move_keeps_maximum_of_iterations:
  "get_move (tree_player\<lparr>iterative := True\<rparr>) tree_board deepening_tree [(1, 2), (2, 1)]
       (expiring 10) = Some (Inr (1, 2))
   \<and> minimax (tree_player\<lparr>iterative := True, time_left := expiring 10\<rparr>) tree_board
       deepening_tree 1 True 0 = Inr ((Fin 5, (1, 2)), 3)
   \<and> minimax (tree_player\<lparr>iterative := True, time_left := expiring 10\<rparr>) tree_board
       deepening_tree 2 True 3 = Inr ((Fin 3, (2, 1)), 8)
   \<and> minimax (tree_player\<lparr>iterative := True, time_left := expiring 10\<rparr>) tree_board
       deepening_tree 3 True 8 = Inl Timeout
   \<and> get_move (tree_player\<lparr>iterative := True\<rparr>) tree_board deepening_tree [(1, 2), (2, 1)]
       (expiring 2) = Some (Inr (-1, -1))"
  by (simp add: get_move_def iterative_deepening.simps deepening_tree_def tree_eval)

subsection \<open>States without legal moves\<close>

text \<open>For every state without legal moves: \<^verbatim>\<open>minimax\<close> returns \<open>(0, (-1, -1))\<close> at
  every depth, and both alpha-beta versions raise at every depth above 0.\<close>

lemma minimax_no_legal_moves:
  assumes "\<not> time_left P n < TIMER_THRESHOLD P" and "get_legal_moves B game None = []"
  shows "minimax P B game depth maximizing_player n = Inr ((Fin 0, (-1, -1)), Suc n)"
  using assms by simp

lemma alphabeta_no_legal_moves:
  assumes "0 < depth" and "get_legal_moves B game None = []"
  shows "alphabeta_max P B game depth alpha beta = Inl UnboundLocalError"
    and "alphabeta_min P B game depth alpha beta = Inl UnboundLocalError"
  using assms by (simp_all add: return_best_def)


text \<open>
  C5 (the code departs from the claim).  On \<open>dead_end\<close>, a state without legal moves,
  at depth 1 \<^verbatim>\<open>minimax\<close> returns \<open>(0, (-1, -1))\<close>, while \<^verbatim>\<open>alphabeta\<close> raises
  \<^verbatim>\<open>UnboundLocalError\<close> in the maximizing and in the minimizing version: the loop body
  never runs and \<^verbatim>\<open>best_move\<close> is returned unbound.
\<close>

theorem alphabeta_without_legal_moves_raises:
  "get_legal_moves tree_board dead_end None = []
   \<and> minimax tree_player tree_board dead_end 1 True 0 = Inr ((Fin 0, (-1, -1)), 1)
   \<and> alphabeta tree_player tree_board dead_end 1 NegInf PosInf True 0
       = Inl UnboundLocalError
   \<and> alphabeta tree_player tree_board dead_end 1 NegInf PosInf False 0
       = Inl UnboundLocalError"
  by (simp add: dead_end_def tree_eval)

subsection \<open>Choice of the search method\<close>

text \<open>The result of \<^verbatim>\<open>get_move\<close> does not depend on the \<open>method\<close> field, in either
  mode.\<close>

lemma minimax_ignores_method:
  "minimax (P\<lparr>method := m\<rparr>) B game depth mp n = minimax P B game depth mp n"
  "minimax_loop (P\<lparr>method := m\<rparr>) B game depth mp ms best n
     = minimax_loop P B game depth mp ms best n"
proof (induction P B game depth mp n and P B game depth mp ms best n
       rule: minimax_minimax_loop.induct)
  case (1 P B game depth maximizing_player n)
  then show ?case by (simp add: Let_def)
next
  case (2 P B game depth maximizing_player best_score n)
  then show ?case by simp
next
  case (3 P B game depth maximizing_player lm rest best_score n)
  then show ?case
    by (simp del: minimax.simps add: Let_def split: sum.splits prod.splits)
qed

lemma iterative_deepening_method_le:
  assumes "iterative_deepening P B game best it n = Some y"
  shows "iterative_deepening (P\<lparr>method := m\<rparr>) B game best it n = Some y"
proof -
  let ?Q = "\<lambda>x z. case x of (((((Q, C), g), b), i), k) \<Rightarrow>
              iterative_deepening (Q\<lparr>method := m\<rparr>) C g b i k = Some z"
  have "?Q (((((P, B), game), best), it), n) y"
  proof (rule iterative_deepening.raw_induct [where Pa = ?Q, OF _ assms])
    fix f Q C g b i k z
    assume IH: "\<And>Q C g b i k z. f Q C g b i k = Some z \<Longrightarrow> ?Q (((((Q, C), g), b), i), k) z"
      and body: "(case minimax Q C g i True k of
                    Inl e \<Rightarrow> (if e = Timeout then Some (Inr b) else Some (Inl e))
                  | Inr r \<Rightarrow> f Q C g (max b (fst r)) (i + 1) (snd r)) = Some z"
    have unfold: "iterative_deepening (Q\<lparr>method := m\<rparr>) C g b i k =
        (case minimax Q C g i True k of
           Inl e \<Rightarrow> (if e = Timeout then Some (Inr b) else Some (Inl e))
         | Inr r \<Rightarrow> iterative_deepening (Q\<lparr>method := m\<rparr>) C g (max b (fst r))
                     (i + 1) (snd r))"
      by (subst iterative_deepening.simps) (simp only: minimax_ignores_method)
    have "(case minimax Q C g i True k of
             Inl e \<Rightarrow> (if e = Timeout then Some (Inr b) else Some (Inl e))
           | Inr r \<Rightarrow> iterative_deepening (Q\<lparr>method := m\<rparr>) C g (max b (fst r))
                       (i + 1) (snd r)) = Some z"
    proof (cases "minimax Q C g i True k")
      case (Inl e)
      with body show ?thesis
        by (simp only: sum.case)
    next
      case (Inr r)
      with body have "f Q C g (max b (fst r)) (i + 1) (snd r) = Some z"
        by (simp only: sum.case)
      from IH [OF this] Inr show ?thesis
        by (simp only: sum.case prod.case)
    qed
    with unfold have "iterative_deepening (Q\<lparr>method := m\<rparr>) C g b i k = Some z"
      by (rule trans)
    then show "?Q (((((Q, C), g), b), i), k) z"
      by (simp only: prod.case)
  qed
  then show ?thesis
    by (simp only: prod.case)
qed

lemma iterative_deepening_ignores_method:
  "iterative_deepening (P\<lparr>method := m\<rparr>) B game best it n
     = iterative_deepening P B game best it n"
proof (cases "iterative_deepening P B game best it n")
  case (Some y)
  then show ?thesis by (simp add: iterative_deepening_method_le)
next
  case None
  show ?thesis
  proof (cases "iterative_deepening (P\<lparr>method := m\<rparr>) B game best it n")
    case (Some y)
    from iterative_deepening_method_le [OF this, of "method P"] None show ?thesis
      by simp
  next
    case None': None
    with None show ?thesis by simp
  qed
qed

lemma get_move_method_irrelevant:
  "get_move (P\<lparr>method := m\<rparr>) B game legal_moves clock = get_move P B game legal_moves clock"
proof -
  have "P\<lparr>method := m, time_left := clock\<rparr> = (P\<lparr>time_left := clock\<rparr>)\<lparr>method := m\<rparr>"
    by simp
  then show ?thesis
    by (simp only: get_move_def Let_def minimax_ignores_method
          iterative_deepening_ignores_method)
       simp
qed


text \<open>
  C6 (the code departs from the claim).  A player configured with method
  \<^verbatim>\<open>'alphabeta'\<close>, fixed depth 2, on \<open>two_ply_tree\<close>: \<^verbatim>\<open>get_move\<close> returns \<open>(1, 2)\<close>,
  the move of \<^verbatim>\<open>minimax\<close>, whereas \<^verbatim>\<open>alphabeta\<close> at that depth returns the move
  \<open>(2, 1)\<close>.
\<close>

theorem get_move_ignores_method:
  "get_move (tree_player\<lparr>method := ''alphabeta''\<rparr>) tree_board two_ply_tree
       [(1, 2), (2, 1)] (\<lambda>n. 100) = Some (Inr (1, 2))
   \<and> alphabeta (tree_player\<lparr>method := ''alphabeta''\<rparr>) tree_board two_ply_tree 2
       NegInf PosInf True 0 = Inr ((Fin 4, (2, 1)), 1)
   \<and> minimax (tree_player\<lparr>method := ''alphabeta''\<rparr>) tree_board two_ply_tree 2 True 0
       = Inr ((Fin 9, (1, 2)), 7)"
  by (simp add: get_move_def two_ply_tree_def tree_eval)

subsection \<open>Leaves\<close>

text \<open>
  C8.  At depth \<open>\<le> 0\<close>, \<^verbatim>\<open>minimax\<close> on a state with at least one legal move (when the
  time guard does not fire), \<^verbatim>\<open>alphabeta_max\<close>, \<^verbatim>\<open>alphabeta_min\<close>, and \<^verbatim>\<open>alphabeta\<close>
  (when its time guard does not fire) return the configured evaluation function
  applied to the state and the player, paired with the player's current location on
  the board.
\<close>

theorem leaf_returns_evaluation_and_location:
  assumes "depth \<le> 0"
  shows "(\<not> time_left P n < TIMER_THRESHOLD P \<longrightarrow> get_legal_moves B game None \<noteq> [] \<longrightarrow>
            minimax P B game depth maximizing_player n =
              Inr ((score P game (self P), get_player_location B game (self P)), Suc n))
       \<and> alphabeta_max P B game depth alpha beta =
            Inr (score P game (self P), get_player_location B game (self P))
       \<and> alphabeta_min P B game depth alpha beta =
            Inr (score P game (self P), get_player_location B game (self P))
       \<and> (\<not> time_left P n < TIMER_THRESHOLD P \<longrightarrow>
            alphabeta P B game depth alpha beta maximizing_player n =
              Inr ((score P game (self P), get_player_location B game (self P)), Suc n))"
  using assms by (simp add: alphabeta_def)

theorem leaf_returns_evaluation_and_location_witness:
  "(0::int) \<le> 0
   \<and> \<not> time_left tree_player 0 < TIMER_THRESHOLD tree_player
   \<and> get_legal_moves tree_board (leaf (1, 2) 3) None \<noteq> []
   \<and> minimax tree_player tree_board (leaf (1, 2) 3) 0 True 0 = Inr ((Fin 3, (1, 2)), 1)
   \<and> alphabeta_max tree_player tree_board (leaf (1, 2) 3) 0 NegInf PosInf
       = Inr (Fin 3, (1, 2))
   \<and> alphabeta_min tree_player tree_board (leaf (1, 2) 3) 0 NegInf PosInf
       = Inr (Fin 3, (1, 2))
   \<and> alphabeta tree_player tree_board (leaf (1, 2) 3) 0 NegInf PosInf True 0
       = Inr ((Fin 3, (1, 2)), 1)"
  using leaf_returns_evaluation_and_location
          [of 0 tree_player 0 tree_board "leaf (1, 2) 3" True NegInf PosInf]
  by (simp add: tree_player_def tree_board_def leaf_def)

subsection \<open>mixed_heuristic\<close>

text \<open>
  C10.  When the number of blank spaces is at least half the board area
  \<^verbatim>\<open>width * height / 2\<close>, \<^verbatim>\<open>mixed_heuristic\<close> returns no score: it raises
  \<^verbatim>\<open>NameError\<close>.  This holds for every such state, terminal or not.
\<close>

theorem mixed_heuristic_raises_name_error:
  assumes "real_of_int (width B game * height B game) / 2
             \<le> real (length (get_blank_spaces B game))"
  shows "mixed_heuristic B game player = Inl NameError"
  using assms by (simp add: mixed_heuristic_def)

theorem mixed_heuristic_raises_name_error_witness:
  "real_of_int (width position_board early * height position_board early) / 2
     \<le> real (length (get_blank_spaces position_board early))
   \<and> \<not> is_loser position_board early 1 \<and> \<not> is_winner position_board early 1
   \<and> mixed_heuristic position_board early 1 = Inl NameError"
  using mixed_heuristic_raises_name_error [of position_board early 1]
  by (simp add: position_board_def early_def)

subsection \<open>Tie-break\<close>

lemma explored_max_prefix:
  "prefix (map fst (explored_max P B game depth ms alpha beta bs)) ms"
  by (induction ms arbitrary: alpha bs) (auto simp: Let_def split: sum.splits)

lemma explored_min_prefix:
  "prefix (map fst (explored_min P B game depth ms alpha beta bs)) ms"
  by (induction ms arbitrary: beta bs) (auto simp: Let_def split: sum.splits)

lemma return_best_Inr: "return_best bs bm = Inr (s, m) \<longleftrightarrow> bm = Some m \<and> s = bs"
  by (auto simp: return_best_def split: option.splits)

lemma alphabeta_max_loop_first:
  "alphabeta_max_loop P B game depth ms alpha beta bs bm = Inr (s, m) \<Longrightarrow>
     (\<forall>p \<in> set (explored_max P B game depth ms alpha beta bs). snd p \<le> s) \<and> bs \<le> s
     \<and> (if bs = s then bm = Some m
         else find (\<lambda>p. snd p = s) (explored_max P B game depth ms alpha beta bs)
                = Some (m, s))"
proof (induction ms arbitrary: alpha bs bm)
  case Nil
  then show ?case by (simp add: return_best_Inr)
next
  case (Cons lm rest)
  from Cons.prems obtain r where
    child: "alphabeta_min P B (forecast_move B game lm) (depth - 1) alpha beta = Inr r"
    by (cases "alphabeta_min P B (forecast_move B game lm) (depth - 1) alpha beta")
       (simp_all only: alphabeta_max_loop.simps sum.case)
  define sc where "sc = fst r"
  show ?case
  proof (cases "sc > bs")
    case True
    show ?thesis
    proof (cases "sc \<ge> beta")
      case cut: True
      have step: "alphabeta_max_loop P B game depth (lm # rest) alpha beta bs bm
              = return_best sc (Some lm)"
        using True cut
        by (simp only: alphabeta_max_loop.simps child sum.case Let_def sc_def if_True)
      from Cons.prems [unfolded step] have "s = sc" "m = lm"
        by (simp_all add: return_best_Inr)
      moreover have ex: "explored_max P B game depth (lm # rest) alpha beta bs = [(lm, sc)]"
        using True cut
        by (simp only: explored_max.simps child sum.case Let_def sc_def if_True)
      ultimately show ?thesis using True unfolding ex by auto
    next
      case False
      have step: "alphabeta_max_loop P B game depth (lm # rest) alpha beta bs bm
              = alphabeta_max_loop P B game depth rest (max alpha sc) beta sc (Some lm)"
        using True False
        by (simp only: alphabeta_max_loop.simps child sum.case Let_def sc_def if_True
              if_False)
      from Cons.prems [unfolded step] have
        loop: "alphabeta_max_loop P B game depth rest (max alpha sc) beta sc (Some lm) = Inr (s, m)" .
      have ex: "explored_max P B game depth (lm # rest) alpha beta bs
                  = (lm, sc) # explored_max P B game depth rest (max alpha sc) beta sc"
        using True False
        by (simp only: explored_max.simps child sum.case Let_def sc_def if_True if_False)
      from Cons.IH [OF loop] True show ?thesis
        unfolding ex by (auto split: if_splits)
    qed
  next
    case False
    show ?thesis
    proof (cases "bs \<ge> beta")
      case cut: True
      have step: "alphabeta_max_loop P B game depth (lm # rest) alpha beta bs bm
              = return_best bs bm"
        using False cut
        by (simp only: alphabeta_max_loop.simps child sum.case Let_def sc_def if_True
              if_False)
      from Cons.prems [unfolded step] have "bm = Some m" "s = bs"
        by (simp_all add: return_best_Inr)
      moreover have ex: "explored_max P B game depth (lm # rest) alpha beta bs = [(lm, sc)]"
        using False cut
        by (simp only: explored_max.simps child sum.case Let_def sc_def if_True if_False)
      ultimately show ?thesis using False unfolding ex by auto
    next
      case nocut: False
      have step: "alphabeta_max_loop P B game depth (lm # rest) alpha beta bs bm
              = alphabeta_max_loop P B game depth rest (max alpha bs) beta bs bm"
        using False nocut
        by (simp only: alphabeta_max_loop.simps child sum.case Let_def sc_def if_False)
      from Cons.prems [unfolded step] have
        loop: "alphabeta_max_loop P B game depth rest (max alpha bs) beta bs bm = Inr (s, m)" .
      have ex: "explored_max P B game depth (lm # rest) alpha beta bs
                  = (lm, sc) # explored_max P B game depth rest (max alpha bs) beta bs"
        using False nocut
        by (simp only: explored_max.simps child sum.case Let_def sc_def if_False)
      from Cons.IH [OF loop] False show ?thesis
        unfolding ex by (auto split: if_splits)
    qed
  qed
qed

lemma alphabeta_min_loop_first:
  "alphabeta_min_loop P B game depth ms alpha beta bs bm = Inr (s, m) \<Longrightarrow>
     (\<forall>p \<in> set (explored_min P B game depth ms alpha beta bs). s \<le> snd p) \<and> s \<le> bs
     \<and> (if bs = s then bm = Some m
         else find (\<lambda>p. snd p = s) (explored_min P B game depth ms alpha beta bs)
                = Some (m, s))"
proof (induction ms arbitrary: beta bs bm)
  case Nil
  then show ?case by (simp add: return_best_Inr)
next
  case (Cons lm rest)
  from Cons.prems obtain r where
    child: "alphabeta_max P B (forecast_move B game lm) (depth - 1) alpha beta = Inr r"
    by (cases "alphabeta_max P B (forecast_move B game lm) (depth - 1) alpha beta")
       (simp_all only: alphabeta_min_loop.simps sum.case)
  define sc where "sc = fst r"
  show ?case
  proof (cases "sc < bs")
    case True
    show ?thesis
    proof (cases "sc \<le> alpha")
      case cut: True
      have step: "alphabeta_min_loop P B game depth (lm # rest) alpha beta bs bm
              = return_best sc (Some lm)"
        using True cut
        by (simp only: alphabeta_min_loop.simps child sum.case Let_def sc_def if_True)
      from Cons.prems [unfolded step] have "s = sc" "m = lm"
        by (simp_all add: return_best_Inr)
      moreover have ex: "explored_min P B game depth (lm # rest) alpha beta bs = [(lm, sc)]"
        using True cut
        by (simp only: explored_min.simps child sum.case Let_def sc_def if_True)
      ultimately show ?thesis using True unfolding ex by auto
    next
      case False
      have step: "alphabeta_min_loop P B game depth (lm # rest) alpha beta bs bm
              = alphabeta_min_loop P B game depth rest alpha (min beta sc) sc (Some lm)"
        using True False
        by (simp only: alphabeta_min_loop.simps child sum.case Let_def sc_def if_True
              if_False)
      from Cons.prems [unfolded step] have
        loop: "alphabeta_min_loop P B game depth rest alpha (min beta sc) sc (Some lm) = Inr (s, m)" .
      have ex: "explored_min P B game depth (lm # rest) alpha beta bs
                  = (lm, sc) # explored_min P B game depth rest alpha (min beta sc) sc"
        using True False
        by (simp only: explored_min.simps child sum.case Let_def sc_def if_True if_False)
      from Cons.IH [OF loop] True show ?thesis
        unfolding ex by (auto split: if_splits)
    qed
  next
    case False
    show ?thesis
    proof (cases "bs \<le> alpha")
      case cut: True
      have step: "alphabeta_min_loop P B game depth (lm # rest) alpha beta bs bm
              = return_best bs bm"
        using False cut
        by (simp only: alphabeta_min_loop.simps child sum.case Let_def sc_def if_True
              if_False)
      from Cons.prems [unfolded step] have "bm = Some m" "s = bs"
        by (simp_all add: return_best_Inr)
      moreover have ex: "explored_min P B game depth (lm # rest) alpha beta bs = [(lm, sc)]"
        using False cut
        by (simp only: explored_min.simps child sum.case Let_def sc_def if_True if_False)
      ultimately show ?thesis using False unfolding ex by auto
    next
      case nocut: False
      have step: "alphabeta_min_loop P B game depth (lm # rest) alpha beta bs bm
              = alphabeta_min_loop P B game depth rest alpha (min beta bs) bs bm"
        using False nocut
        by (simp only: alphabeta_min_loop.simps child sum.case Let_def sc_def if_False)
      from Cons.prems [unfolded step] have
        loop: "alphabeta_min_loop P B game depth rest alpha (min beta bs) bs bm = Inr (s, m)" .
      have ex: "explored_min P B game depth (lm # rest) alpha beta bs
                  = (lm, sc) # explored_min P B game depth rest alpha (min beta bs) bs"
        using False nocut
        by (simp only: explored_min.simps child sum.case Let_def sc_def if_False)
      from Cons.IH [OF loop] False show ?thesis
        unfolding ex by (auto split: if_splits)
    qed
  qed
qed

lemma minimax_loop_tie_max:
  assumes "minimax P B (forecast_move B game lm) (depth - 1) True n = Inr ((s, mv), n')"
  shows "minimax_loop P B game depth True (lm # rest) (s, bm) n
           = minimax_loop P B game depth True rest (s, if bm \<le> mv then lm else bm) n'"
  using assms by (auto simp del: minimax.simps simp: max_def Let_def)

lemma minimax_loop_tie_min:
  assumes "minimax P B (forecast_move B game lm) (depth - 1) False n = Inr ((s, mv), n')"
  shows "minimax_loop P B game depth False (lm # rest) (s, bm) n
           = minimax_loop P B game depth False rest (s, if mv \<le> bm then lm else bm) n'"
  using assms by (auto simp del: minimax.simps simp: min_def Let_def)

text \<open>
  When an alpha-beta node above depth 0 returns, the returned score is the optimum of
  the recursive scores it obtained and the returned move is the first explored move
  whose recursive score attains it; the explored moves are a prefix of the legal
  moves.  (The node does not always return: see the theorem below.)
\<close>

lemma alphabeta_max_first_among_explored:
  assumes "0 < depth" and "alphabeta_max P B game depth alpha beta = Inr (s, m)"
  shows "(\<forall>p \<in> set (explored_max P B game depth (get_legal_moves B game None)
                       alpha beta NegInf). snd p \<le> s)
       \<and> find (\<lambda>p. snd p = s)
            (explored_max P B game depth (get_legal_moves B game None) alpha beta NegInf)
           = Some (m, s)"
  using assms
    alphabeta_max_loop_first [of P B game depth "get_legal_moves B game None" alpha beta
      NegInf None s m]
  by (auto split: if_splits)

lemma alphabeta_min_first_among_explored:
  assumes "0 < depth" and "alphabeta_min P B game depth alpha beta = Inr (s, m)"
  shows "(\<forall>p \<in> set (explored_min P B game depth (get_legal_moves B game None)
                       alpha beta PosInf). s \<le> snd p)
       \<and> find (\<lambda>p. snd p = s)
            (explored_min P B game depth (get_legal_moves B game None) alpha beta PosInf)
           = Some (m, s)"
  using assms
    alphabeta_min_loop_first [of P B game depth "get_legal_moves B game None" alpha beta
      PosInf None s m]
  by (auto split: if_splits)

text \<open>
  C7 (the code departs from the claim).  In \<open>tied_tree\<close> the legal moves are
  \<open>(1, 2)\<close>, \<open>(2, 1)\<close> in this order and both recursive scores are 5.  \<^verbatim>\<open>minimax\<close> at
  depth 1 returns the later move \<open>(2, 1)\<close>: it compares whole (score, move) pairs,
  and the move field returned for the second move is the greater one.  Alpha-beta on
  the same input returns the earlier move \<open>(1, 2)\<close>, in the maximizing and in the
  minimizing version.  In \<open>hopeless_tree\<close> both moves tie at \<open>-\<infinity>\<close>, and the maximizing
  alpha-beta returns no move at all: no score exceeds the initial \<^verbatim>\<open>best_score\<close>, so
  \<^verbatim>\<open>best_move\<close> is unbound at the \<^verbatim>\<open>return\<close>.
\<close>

theorem minimax_tie_returns_later_move:
  "get_legal_moves tree_board tied_tree None = [(1, 2), (2, 1)]
   \<and> minimax tree_player tree_board (forecast_move tree_board tied_tree (1, 2)) 0 True 1
       = Inr ((Fin 5, (1, 2)), 2)
   \<and> minimax tree_player tree_board (forecast_move tree_board tied_tree (2, 1)) 0 True 2
       = Inr ((Fin 5, (2, 1)), 3)
   \<and> minimax tree_player tree_board tied_tree 1 True 0 = Inr ((Fin 5, (2, 1)), 3)
   \<and> alphabeta tree_player tree_board tied_tree 1 NegInf PosInf True 0
       = Inr ((Fin 5, (1, 2)), 1)
   \<and> alphabeta tree_player tree_board tied_tree 1 NegInf PosInf False 0
       = Inr ((Fin 5, (1, 2)), 1)
   \<and> get_legal_moves tree_board hopeless_tree None = [(1, 2), (2, 1)]
   \<and> alphabeta tree_player tree_board hopeless_tree 1 NegInf PosInf True 0
       = Inl UnboundLocalError"
  by (simp add: tied_tree_def hopeless_tree_def tree_eval)

subsection \<open>Evaluation functions\<close>

lemma loop_four_bounds:
  "sc \<le> loop_four B game row col l sc
   \<and> loop_four B game row col l sc \<le> sc + 16 * int (length l)"
proof (induction l arbitrary: sc)
  case Nil
  show ?case by simp
next
  case (Cons d l)
  obtain r c where d: "d = (r, c)" by (cases d)
  show ?case
    using Cons.IH [of sc] Cons.IH [of "sc + 16"]
    by (simp add: d)
qed

lemma loop_three_bounds:
  "sc \<le> loop_three B game row col l sc
   \<and> loop_three B game row col l sc
       \<le> sc + sum_list (map (\<lambda>p. 8 + 16 * int (length (snd p))) l)"
proof (induction l arbitrary: sc)
  case Nil
  show ?case by simp
next
  case (Cons p l)
  obtain d fours where p: "p = (d, fours)" by (cases p)
  obtain r c where d: "d = (r, c)" by (cases d)
  show ?case
    using Cons.IH [of sc] Cons.IH [of "loop_four B game row col fours (sc + 8)"]
      loop_four_bounds [of "sc + 8" B game row col fours]
    by (simp add: p d)
qed

lemma loop_two_bounds:
  "sc \<le> loop_two B game row col l sc
   \<and> loop_two B game row col l sc
       \<le> sc + sum_list (map (\<lambda>p. 4 + sum_list (map (\<lambda>q. 8 + 16 * int (length (snd q))) (snd p))) l)"
proof (induction l arbitrary: sc)
  case Nil
  show ?case by simp
next
  case (Cons p l)
  obtain d threes where p: "p = (d, threes)" by (cases p)
  obtain r c where d: "d = (r, c)" by (cases d)
  show ?case
    using Cons.IH [of sc] Cons.IH [of "loop_three B game row col threes (sc + 4)"]
      loop_three_bounds [of "sc + 4" B game row col threes]
    by (simp add: p d)
qed

lemma loop_one_bounds:
  "sc \<le> loop_one B game row col l sc
   \<and> loop_one B game row col l sc
       \<le> sc + sum_list (map (\<lambda>p. 1 + sum_list (map (\<lambda>q. 4 + sum_list (map (\<lambda>u. 8 + 16 * int (length (snd u))) (snd q))) (snd p))) l)"
proof (induction l arbitrary: sc)
  case Nil
  show ?case by simp
next
  case (Cons p l)
  obtain d twos where p: "p = (d, twos)" by (cases p)
  obtain r c where d: "d = (r, c)" by (cases d)
  show ?case
    using Cons.IH [of sc] Cons.IH [of "loop_two B game row col twos (sc + 1)"]
      loop_two_bounds [of "sc + 1" B game row col twos]
    by (simp add: p d)
qed

lemmas tables = directions_def row_minus_one_column_cero_def row_plus_one_column_cero_def
  row_cero_column_minus_one_def row_cero_column_plus_one_def row_cero_column_minus_two_def
  row_minus_one_column_plus_one_def row_minus_two_column_cero_def
  row_plus_one_column_minus_one_def row_minus_one_column_minus_one_def
  row_plus_two_column_cero_def row_plus_one_column_plus_one_def row_cero_column_plus_two_def

lemma directions_score_bounds:
  "0 \<le> loop_one B game row col directions 0 \<and> loop_one B game row col directions 0 \<le> 1183"
proof -
  have "sum_list (map (\<lambda>p. 1 + sum_list (map (\<lambda>q. 4 + sum_list (map (\<lambda>u. 8 + 16 * int (length (snd u))) (snd q))) (snd p))) directions) = 1183"
    by (simp add: tables)
  then show ?thesis
    using loop_one_bounds [of 0 B game row col directions] by simp
qed

text \<open>
  The two heuristics of \<^verbatim>\<open>heuristics.py\<close> test \<^verbatim>\<open>is_loser\<close> and \<^verbatim>\<open>is_winner\<close> first:
  on a board where no state is both won and lost by the same player they return
  \<open>+\<infinity>\<close> for a state won by the player, \<open>-\<infinity>\<close> for a state lost by the player, and a
  finite value otherwise (for \<^verbatim>\<open>future_moves_weight\<close> an integer between 0 and 1183).
\<close>

lemma weighted_and_future_moves_contract:
  assumes "\<not> (is_loser B game player \<and> is_winner B game player)"
  shows "(is_winner B game player \<longrightarrow>
            weighted_improved_score B game player = PosInf
            \<and> future_moves_weight B game player = PosInf)
       \<and> (is_loser B game player \<longrightarrow>
            weighted_improved_score B game player = NegInf
            \<and> future_moves_weight B game player = NegInf)
       \<and> (\<not> is_winner B game player \<and> \<not> is_loser B game player \<longrightarrow>
            weighted_improved_score B game player
              = Fin (real_of_int
                  (10 * int (length (get_legal_moves B game (Some player)))
                   - 5 * int (length (get_legal_moves B game
                                       (Some (get_opponent B game player))))))
            \<and> (\<exists>k. future_moves_weight B game player = Fin (real_of_int k)
                    \<and> 0 \<le> k \<and> k \<le> 1183))"
proof -
  obtain row col where loc: "get_player_location B game player = (row, col)"
    by (cases "get_player_location B game player")
  have "\<exists>k. Fin (real_of_int (loop_one B game row col directions 0)) = Fin (real_of_int k)
          \<and> 0 \<le> k \<and> k \<le> 1183"
    using directions_score_bounds [of B game row col] by blast
  then have f: "\<not> is_winner B game player \<and> \<not> is_loser B game player \<longrightarrow>
      (\<exists>k. future_moves_weight B game player = Fin (real_of_int k) \<and> 0 \<le> k \<and> k \<le> 1183)"
    by (simp add: future_moves_weight_def loc)
  have w: "\<not> is_winner B game player \<and> \<not> is_loser B game player \<longrightarrow>
      weighted_improved_score B game player
        = Fin (real_of_int
            (10 * int (length (get_legal_moves B game (Some player)))
             - 5 * int (length (get_legal_moves B game
                                 (Some (get_opponent B game player))))))"
    by (simp add: weighted_improved_score_def)
  have i: "(is_winner B game player \<longrightarrow>
            weighted_improved_score B game player = PosInf
            \<and> future_moves_weight B game player = PosInf)
       \<and> (is_loser B game player \<longrightarrow>
            weighted_improved_score B game player = NegInf
            \<and> future_moves_weight B game player = NegInf)"
    using assms by (auto simp: weighted_improved_score_def future_moves_weight_def)
  from i f w show ?thesis
    by simp
qed

text \<open>\<^verbatim>\<open>custom_score\<close> does not read its player argument.\<close>

lemma custom_score_ignores_player:
  "custom_score B game player = custom_score B game player'"
  by (simp add: custom_score_def)

text \<open>
  C9 (the code departs from the claim).  In \<open>decided\<close> player 2 is to move and has no
  legal move: the state is won by player 1 and lost by player 2.  \<^verbatim>\<open>custom_score\<close>
  returns 0 for the winner and for the loser alike, where
  \<^verbatim>\<open>weighted_improved_score\<close> and \<^verbatim>\<open>future_moves_weight\<close> return \<open>+\<infinity>\<close> for player 1 and
  \<open>-\<infinity>\<close> for player 2.
\<close>

theorem custom_score_blind_to_outcome:
  "is_winner position_board decided 1
   \<and> custom_score position_board decided 1 = Fin 0
   \<and> weighted_improved_score position_board decided 1 = PosInf
   \<and> future_moves_weight position_board decided 1 = PosInf
   \<and> is_loser position_board decided 2
   \<and> custom_score position_board decided 2 = Fin 0
   \<and> weighted_improved_score position_board decided 2 = NegInf
   \<and> future_moves_weight position_board decided 2 = NegInf"
  by (simp add: custom_score_def weighted_improved_score_def future_moves_weight_def
        position_board_def decided_def)

end
